theory Spec2Isabelle
  imports Complex_Main
begin

section \<open>Orbital trajectory simulator: the model of main.py\<close>

subsection \<open>Numbers and errors\<close>

text \<open>
  Python floats are read as real numbers: rounding and overflow of IEEE doubles are
  outside this model. What is kept is the one place where the arithmetic of the program
  leaves the finite numbers on exact inputs: a numpy division by zero raises nothing and
  gives \<open>inf\<close> or \<open>nan\<close>. A computed component is therefore a \<open>valeur\<close>: a finite
  real, or \<open>NonFini\<close>.
\<close>

datatype valeur = Fini real | NonFini

definition division :: "real \<Rightarrow> real \<Rightarrow> valeur" where
  "division a b = (if b = 0 then NonFini else Fini (a / b))"

datatype erreur = ValueError | IndexError

subsection \<open>Physical constants\<close>

definition G :: real where
  "G = 667430 / 10 ^ 16"

definition M_terre :: real where
  "M_terre = 5972 * 10 ^ 21"

definition R_terre :: real where
  "R_terre = 6371 * 10 ^ 3"

subsection \<open>The motion model\<close>

text \<open>
  \<open>equations_mouvement(t, y, G, M)\<close> unpacks \<open>y\<close> into exactly four components (any
  other length is Python's ValueError), and returns the list \<open>[vx, vy, ax, ay]\<close>.
  The parameters \<open>Gc\<close> and \<open>Mc\<close> are the function's own arguments \<open>G\<close> and \<open>M\<close>,
  which shadow the global constants.
\<close>

fun equations_mouvement :: "real \<Rightarrow> real list \<Rightarrow> real \<Rightarrow> real \<Rightarrow> erreur + valeur list" where
  "equations_mouvement t [x, y_pos, vx, vy] Gc Mc =
     (let r = sqrt (x ^ 2 + y_pos ^ 2);
          ax = division (- Gc * Mc * x) (r ^ 3);
          ay = division (- Gc * Mc * y_pos) (r ^ 3)
      in Inr [Fini vx, Fini vy, ax, ay])"
| "equations_mouvement t _ Gc Mc = Inl ValueError"

subsection \<open>Library functions called by the integrator\<close>

text \<open>
  \<open>np.radians\<close> multiplies by \<open>pi / 180\<close>. \<open>np.linspace(start, stop, num)\<close> is
  written after numpy's own steps: the indices \<open>0 .. num - 1\<close> are scaled by
  \<open>step = (stop - start) / (num - 1)\<close> (when the step is zero the indices are divided
  first and multiplied by the whole difference), shifted by \<open>start\<close>, and the last entry
  is then overwritten with \<open>stop\<close>.
\<close>

definition radians :: "real \<Rightarrow> real" where
  "radians deg = deg * (pi / 180)"

definition linspace :: "real \<Rightarrow> real \<Rightarrow> nat \<Rightarrow> real list" where
  "linspace start stop num =
     (let diviseur = num - 1;
          delta = stop - start;
          y = (if diviseur > 0 then
                 (let step = delta / real diviseur
                  in if step = 0
                     then map (\<lambda>i. real i / real diviseur * delta + start) [0..<num]
                     else map (\<lambda>i. real i * step + start) [0..<num])
               else map (\<lambda>i. real i * delta + start) [0..<num])
      in if num > 1 then y[num - 1 := stop] else y)"

subsection \<open>The call of the ODE solver\<close>

text \<open>
  \<open>solve_ivp\<close> belongs to scipy, not to this program. The program decides what it is
  called with, and reads \<open>y\<close> and \<open>success\<close> from what it returns. The keyword and
  positional arguments of the call are the record \<open>requete\<close>; the returned object is the
  record \<open>resultat\<close>, whose \<open>sol_y\<close> has one row per state component. The solver itself
  is a parameter of the model: any function from requests to a result or an exception.
\<close>

record requete =
  req_fun :: "real \<Rightarrow> real list \<Rightarrow> real \<Rightarrow> real \<Rightarrow> erreur + valeur list"
  req_t_span :: "real \<times> real"
  req_y0 :: "real list"
  req_args :: "real \<times> real"
  req_t_eval :: "real list"
  req_rtol :: real
  req_atol :: real

record resultat =
  sol_t :: "real list"
  sol_y :: "real list list"
  sol_success :: bool

type_synonym solveur = "requete \<Rightarrow> erreur + resultat"

text \<open>
  The right-hand side the solver integrates: scipy calls \<open>fun(t, y, *args)\<close>, the
  function of the request applied to the time, the state and the two extra arguments.
\<close>

definition second_membre :: "requete \<Rightarrow> real \<Rightarrow> real list \<Rightarrow> erreur + valeur list" where
  "second_membre req t y = (case req_args req of (a, b) \<Rightarrow> req_fun req t y a b)"

subsection \<open>The trajectory integrator\<close>

text \<open>
  The body of \<open>simulation_orbite\<close> up to the call: the initial conditions, the time
  span and the evaluation times, and the arguments handed to \<open>solve_ivp\<close>.
\<close>

definition arguments_solve_ivp :: "real \<Rightarrow> real \<Rightarrow> real \<Rightarrow> real \<Rightarrow> real \<Rightarrow> requete" where
  "arguments_solve_ivp masse altitude vitesse_initiale angle_deg duree =
     (let angle_rad = radians angle_deg;
          x0 = R_terre + altitude;
          y0 = 0;
          vx0 = vitesse_initiale * cos angle_rad;
          vy0 = vitesse_initiale * sin angle_rad;
          y_init = [x0, y0, vx0, vy0];
          t_span = (0, duree);
          t_eval = linspace 0 duree 10000
      in \<lparr>req_fun = equations_mouvement, req_t_span = t_span, req_y0 = y_init,
          req_args = (G, M_terre), req_t_eval = t_eval,
          req_rtol = 1 / 10 ^ 8, req_atol = 1 / 10 ^ 10\<rparr>)"

definition simulation_orbite ::
    "solveur \<Rightarrow> real \<Rightarrow> real \<Rightarrow> real \<Rightarrow> real \<Rightarrow> real \<Rightarrow> erreur + resultat" where
  "simulation_orbite solve_ivp masse altitude vitesse_initiale angle_deg duree =
     solve_ivp (arguments_solve_ivp masse altitude vitesse_initiale angle_deg duree)"

text \<open>The default value of the parameter \<open>duree\<close>.\<close>

definition duree_defaut :: real where
  "duree_defaut = 86400"

subsection \<open>The visualiser and the entry point\<close>

text \<open>
  What the process does to the outside is a list of actions, in order: a printed line, the
  figure shown by \<open>visualiser_orbite\<close> (the two coordinate rows it plots and the radius of
  the disc), or an exception that leaves the program. The letter e with an acute accent
  is its two bytes in UTF-8.
\<close>

datatype action = Affiche string | Figure "real list" "real list" real | Leve erreur

definition e_aigu :: string where
  "e_aigu = [CHR 0xC3, CHR 0xA9]"

definition msg_banniere :: string where
  "msg_banniere = ''=== Simulateur de Trajectoires Orbitales ===''"

definition msg_entree_invalide :: string where
  "msg_entree_invalide =
     ''Entr'' @ e_aigu @ ''e invalide. Veuillez entrer des valeurs num'' @ e_aigu @ ''riques.''"

definition msg_en_cours :: string where
  "msg_en_cours = ''Simulation en cours...''"

definition msg_echec :: string where
  "msg_echec = ''La simulation a '' @ e_aigu @ ''chou'' @ e_aigu @ ''.''"

definition msg_terminee :: string where
  "msg_terminee = ''Simulation termin'' @ e_aigu @ ''e. Affichage de la trajectoire.''"


text \<open>
  \<open>sol.y[0]\<close> and \<open>sol.y[1]\<close>: a result with fewer than two rows is an IndexError, and
  \<open>plt.plot\<close> refuses two rows of different lengths with a ValueError.
\<close>

definition visualiser_orbite :: "resultat \<Rightarrow> action list" where
  "visualiser_orbite sol =
     (case sol_y sol of
        x # y # _ \<Rightarrow> if length x = length y then [Figure x y R_terre] else [Leve ValueError]
      | _ \<Rightarrow> [Leve IndexError])"

text \<open>
  The guarded block of \<open>main\<close>: four assignments of literals, each of which succeeds.
  Its value is the four variables it binds, or the exception it raises.
\<close>

definition saisie :: "erreur + real \<times> real \<times> real \<times> real" where
  "saisie =
     (let masse = 1000; altitude = 400000; vitesse_initiale = 7800; angle_deg = 0
      in Inr (masse, altitude, vitesse_initiale, angle_deg))"

definition main :: "solveur \<Rightarrow> action list" where
  "main solve_ivp =
     Affiche msg_banniere #
     (case saisie of
        Inl ValueError \<Rightarrow> [Affiche msg_entree_invalide]
      | Inl IndexError \<Rightarrow> [Leve IndexError]
      | Inr (masse, altitude, vitesse_initiale, angle_deg) \<Rightarrow>
          Affiche msg_en_cours #
          (case simulation_orbite solve_ivp masse altitude vitesse_initiale angle_deg
                  duree_defaut of
             Inl e \<Rightarrow> [Leve e]
           | Inr sol \<Rightarrow>
               if \<not> sol_success sol then [Affiche msg_echec]
               else Affiche msg_terminee # visualiser_orbite sol))"

subsection \<open>Quantities of the specification\<close>


definition trajectoire ::
    "(real \<Rightarrow> real list \<Rightarrow> erreur + valeur list) \<Rightarrow> real \<Rightarrow> real \<Rightarrow>
     (real \<Rightarrow> real) \<Rightarrow> (real \<Rightarrow> real) \<Rightarrow> (real \<Rightarrow> real) \<Rightarrow> (real \<Rightarrow> real) \<Rightarrow> bool" where
  "trajectoire f a b X Y VX VY \<longleftrightarrow>
     (\<forall>t\<in>{a..b}. \<exists>dx dy ax ay.
        f t [X t, Y t, VX t, VY t] = Inr [Fini dx, Fini dy, Fini ax, Fini ay]
        \<and> (X has_real_derivative dx) (at t within {a..b})
        \<and> (Y has_real_derivative dy) (at t within {a..b})
        \<and> (VX has_real_derivative ax) (at t within {a..b})
        \<and> (VY has_real_derivative ay) (at t within {a..b}))"

text \<open>
  What scipy documents of a result: \<open>success\<close> is true when the solver reached the end of
  the interval, \<open>t\<close> are time points and \<open>y\<close> the values of the solution at \<open>t\<close>. Read
  over the reals, with the solution exact: when a solver reports success, a trajectory
  of the right-hand side of its request exists over the whole span, it starts in the
  initial state at the first time of the span, every returned time lies in the span and
  the rows of \<open>y\<close> are the four components of that trajectory at the returned times
  (a result without any time has nothing to compare).
\<close>

definition solveur_fidele :: "solveur \<Rightarrow> bool" where
  "solveur_fidele solve_ivp \<longleftrightarrow>
     (\<forall>req sol. solve_ivp req = Inr sol \<and> sol_success sol \<longrightarrow>
        (\<exists>X Y VX VY.
           trajectoire (second_membre req)
             (min (fst (req_t_span req)) (snd (req_t_span req)))
             (max (fst (req_t_span req)) (snd (req_t_span req))) X Y VX VY
           \<and> req_y0 req = [X (fst (req_t_span req)), Y (fst (req_t_span req)),
                            VX (fst (req_t_span req)), VY (fst (req_t_span req))]
           \<and> set (sol_t sol) \<subseteq> {min (fst (req_t_span req)) (snd (req_t_span req))..
                                  max (fst (req_t_span req)) (snd (req_t_span req))}
           \<and> (sol_t sol = [] \<or>
               sol_y sol = [map X (sol_t sol), map Y (sol_t sol),
                            map VX (sol_t sol), map VY (sol_t sol)])))"

subsection \<open>The solver on a span of length zero\<close>

text \<open>
  The path scipy's \<open>solve_ivp\<close> takes when \<open>t0 = tf\<close>, with \<open>t_eval\<close> given and neither
  events nor dense output, after the library's code. The evaluation times must lie in the
  span (otherwise ValueError). Because \<open>tf > t0\<close> is false, \<open>t_eval\<close> is reversed and the
  index \<open>t_eval_i\<close> starts at its length. The solver object evaluates the right-hand side
  once at the initial state; its direction is \<open>+1\<close>, and its first \<open>step()\<close> finds
  \<open>t = t_bound\<close> and finishes at once with status 0. The times of that step are the slice
  \<open>t_eval[t_eval_i : t_eval_i_new]\<close> with \<open>t_eval_i_new = searchsorted(t_eval, t, 'right')\<close>;
  only a slice that is not empty is appended to the output (with the constant interpolant
  of a step of length zero), and a run that appended nothing returns empty \<open>t\<close> and \<open>y\<close>.
  On every other span the solver is a parameter, \<open>integration\<close>.
\<close>

definition searchsorted_droite :: "real list \<Rightarrow> real \<Rightarrow> nat" where
  "searchsorted_droite xs v = length (takeWhile (\<lambda>x. x \<le> v) xs)"

definition tranche :: "'a list \<Rightarrow> nat \<Rightarrow> nat \<Rightarrow> 'a list" where
  "tranche xs i j = take (j - i) (drop i xs)"

definition solve_ivp_span_nul :: "requete \<Rightarrow> erreur + resultat" where
  "solve_ivp_span_nul req =
     (let t0 = fst (req_t_span req);
          tf = snd (req_t_span req);
          t_eval = req_t_eval req
      in if (\<exists>x\<in>set t_eval. x < min t0 tf) \<or> (\<exists>x\<in>set t_eval. max t0 tf < x)
         then Inl ValueError
         else
           (case second_membre req t0 (req_y0 req) of
              Inl e \<Rightarrow> Inl e
            | Inr f0 \<Rightarrow>
                (let t_eval_r = rev t_eval;
                     t_eval_i = length t_eval_r;
                     t = tf;
                     t_eval_i_new = searchsorted_droite t_eval_r t;
                     t_eval_step = tranche t_eval_r t_eval_i t_eval_i_new
                 in if t_eval_step = []
                    then Inr \<lparr>sol_t = [], sol_y = [], sol_success = True\<rparr>
                    else Inr \<lparr>sol_t = t_eval_step,
                              sol_y = map (\<lambda>v. map (\<lambda>_. v) t_eval_step) (req_y0 req),
                              sol_success = True\<rparr>)))"

definition solve_ivp_scipy :: "solveur \<Rightarrow> solveur" where
  "solve_ivp_scipy integration req =
     (if fst (req_t_span req) = snd (req_t_span req) then solve_ivp_span_nul req
      else integration req)"

subsection \<open>A circular orbit\<close>










section \<open>Properties\<close>

subsection \<open>Helper facts\<close>

lemma length_linspace: "length (linspace a b n) = n"
  by (simp add: linspace_def Let_def)

lemma linspace_nth:
  assumes "1 < n" and "i < n"
  shows "linspace a b n ! i = (if i = n - 1 then b else a + real i * ((b - a) / real (n - 1)))"
proof (cases "(b - a) / real (n - 1) = 0")
  case True
  with assms have "b = a"
    by simp
  with assms show ?thesis
    by (simp add: linspace_def Let_def nth_list_update)
next
  case False
  with assms show ?thesis
    by (simp add: linspace_def Let_def nth_list_update)
qed

lemma linspace_pas:
  assumes "1 < n" and "Suc i < n"
  shows "linspace a b n ! Suc i - linspace a b n ! i = (b - a) / real (n - 1)"
proof (cases "Suc i = n - 1")
  case True
  with assms have e1: "linspace a b n ! Suc i = b"
    by (simp add: linspace_nth)
  from assms True have e2: "linspace a b n ! i = a + real i * ((b - a) / real (n - 1))"
    by (simp add: linspace_nth)
  define c where "c = real (n - 1)"
  from True have "c = real (Suc i)"
    by (simp add: c_def)
  then have i: "real i = c - 1" and c: "c \<noteq> 0"
    by simp_all
  have "b - (a + (c - 1) * ((b - a) / c)) = (b - a) / c"
    using c by (simp add: field_simps)
  then show ?thesis
    unfolding e1 e2 i c_def .
next
  case False
  from assms have i: "i \<noteq> n - 1"
    by arith
  define s where "s = (b - a) / real (n - 1)"
  from assms False have e1: "linspace a b n ! Suc i = a + real (Suc i) * s"
    by (simp add: linspace_nth s_def)
  from assms i have e2: "linspace a b n ! i = a + real i * s"
    by (simp add: linspace_nth s_def)
  have "a + real (Suc i) * s - (a + real i * s) = s"
    by (simp add: algebra_simps)
  then show ?thesis
    unfolding e1 e2 s_def .
qed

lemma linspace_degenere:
  assumes "1 < n"
  shows "linspace a a n = replicate n a"
proof (rule nth_equalityI)
  show "length (linspace a a n) = length (replicate n a)"
    by (simp add: length_linspace)
next
  fix i
  assume "i < length (linspace a a n)"
  then have "i < n"
    by (simp add: length_linspace)
  with assms show "linspace a a n ! i = replicate n a ! i"
    by (simp add: linspace_nth)
qed

lemma affiche_hors_figure: "Affiche s \<notin> set (visualiser_orbite sol)"
  by (simp add: visualiser_orbite_def split: list.splits)

lemma exemple_conditions_initiales:
  "req_y0 (arguments_solve_ivp 1000 400000 7800 0 86400) = [6771000, 0, 7800, 0]"
  by (simp add: arguments_solve_ivp_def radians_def R_terre_def Let_def)



lemma second_membre_arguments:
  "second_membre (arguments_solve_ivp masse altitude vitesse angle_deg duree) =
     (\<lambda>t y. equations_mouvement t y G M_terre)"
  by (intro ext) (simp add: second_membre_def arguments_solve_ivp_def Let_def)


lemma continue_sur_intervalle:
  fixes f :: "real \<Rightarrow> real"
  assumes "\<And>s. s \<in> {a..b} \<Longrightarrow> \<exists>d. (f has_real_derivative d) (at s within {a..b})"
  shows "continuous_on {a..b} f"
  unfolding continuous_on_eq_continuous_within
proof
  fix s
  assume "s \<in> {a..b}"
  with assms obtain d where "(f has_real_derivative d) (at s within {a..b})"
    by blast
  then show "continuous (at s within {a..b}) f"
    by (rule DERIV_continuous)
qed

lemma decroit_sur_intervalle:
  fixes f :: "real \<Rightarrow> real"
  assumes d: "\<And>s. s \<in> {a..b} \<Longrightarrow> \<exists>d. (f has_real_derivative d) (at s within {a..b}) \<and> d \<le> 0"
    and t: "t \<in> {a..b}"
  shows "f t \<le> f a"
proof -
  from t have sub: "{a..t} \<subseteq> {a..b}"
    by auto
  have d': "\<exists>d. (f has_real_derivative d) (at s within {a..t}) \<and> d \<le> 0" if "s \<in> {a..t}" for s
  proof -
    from that sub have "s \<in> {a..b}"
      by blast
    from d [OF this] obtain e where "(f has_real_derivative e) (at s within {a..b})" and "e \<le> 0"
      by blast
    with sub show ?thesis
      using DERIV_subset by blast
  qed
  have c: "continuous_on {a..t} f"
    by (rule continue_sur_intervalle) (use d' in blast)
  have i: "\<exists>y. (f has_real_derivative y) (at x) \<and> y \<le> 0" if "a < x" "x < t" for x
  proof -
    from that have "x \<in> {a..t}"
      by simp
    from d' [OF this] that show ?thesis
      by (simp add: at_within_Icc_at)
  qed
  from t have "a \<le> t"
    by simp
  from DERIV_nonpos_imp_decreasing_open [OF this i c] show ?thesis
    by simp
qed

lemma constante_sur_intervalle:
  fixes f :: "real \<Rightarrow> real"
  assumes d: "\<And>s. s \<in> {a..b} \<Longrightarrow> (f has_real_derivative 0) (at s within {a..b})"
    and t: "t \<in> {a..b}"
  shows "f t = f a"
proof -
  have "f t \<le> f a"
    by (rule decroit_sur_intervalle [OF _ t]) (use d in auto)
  moreover have "- f t \<le> - f a"
  proof (rule decroit_sur_intervalle [OF _ t])
    fix s
    assume "s \<in> {a..b}"
    from DERIV_minus [OF d [OF this]]
    show "\<exists>d. ((\<lambda>s. - f s) has_real_derivative d) (at s within {a..b}) \<and> d \<le> 0"
      by auto
  qed
  ultimately show ?thesis
    by simp
qed

lemma equations_mouvement_composantes:
  assumes "equations_mouvement t [x, y, vx, vy] Gc Mc = Inr [Fini dx, Fini dy, Fini ax, Fini ay]"
  shows "dx = vx" and "dy = vy" and "sqrt (x ^ 2 + y ^ 2) \<noteq> 0"
    and "ax = - Gc * Mc * x / sqrt (x ^ 2 + y ^ 2) ^ 3"
    and "ay = - Gc * Mc * y / sqrt (x ^ 2 + y ^ 2) ^ 3"
proof -
  define d where "d = sqrt (x ^ 2 + y ^ 2) ^ 3"
  from assms have v: "dx = vx \<and> dy = vy"
    and a: "division (- Gc * Mc * x) d = Fini ax" "division (- Gc * Mc * y) d = Fini ay"
    by (simp_all add: Let_def d_def)
  from v show "dx = vx" and "dy = vy"
    by simp_all
  from a(1) have nz: "d \<noteq> 0"
    by (cases "d = 0") (simp_all add: division_def)
  then show "sqrt (x ^ 2 + y ^ 2) \<noteq> 0"
    unfolding d_def by (rule contrapos_nn) simp
  from a nz have "ax = - Gc * Mc * x / d" and "ay = - Gc * Mc * y / d"
    by (simp_all add: division_def)
  then show "ax = - Gc * Mc * x / sqrt (x ^ 2 + y ^ 2) ^ 3"
    and "ay = - Gc * Mc * y / sqrt (x ^ 2 + y ^ 2) ^ 3"
    unfolding d_def by blast+
qed

lemma force_centrale: "x * (k * y / d) - y * (k * x / d) = (0::real)"
  by (simp add: mult.commute mult.left_commute)

lemma trajectoire_derivees:
  assumes "trajectoire (\<lambda>t y. equations_mouvement t y Gc Mc) a b X Y VX VY" and "t \<in> {a..b}"
  shows "(X has_real_derivative VX t) (at t within {a..b})"
    and "(Y has_real_derivative VY t) (at t within {a..b})"
    and "(VX has_real_derivative (- Gc * Mc * X t / sqrt ((X t) ^ 2 + (Y t) ^ 2) ^ 3))
           (at t within {a..b})"
    and "(VY has_real_derivative (- Gc * Mc * Y t / sqrt ((X t) ^ 2 + (Y t) ^ 2) ^ 3))
           (at t within {a..b})"
    and "sqrt ((X t) ^ 2 + (Y t) ^ 2) \<noteq> 0"
proof -
  from assms obtain dx dy ax ay where
    e: "equations_mouvement t [X t, Y t, VX t, VY t] Gc Mc =
          Inr [Fini dx, Fini dy, Fini ax, Fini ay]"
    and dX: "(X has_real_derivative dx) (at t within {a..b})"
    and dY: "(Y has_real_derivative dy) (at t within {a..b})"
    and dVX: "(VX has_real_derivative ax) (at t within {a..b})"
    and dVY: "(VY has_real_derivative ay) (at t within {a..b})"
    unfolding trajectoire_def by blast
  note c = equations_mouvement_composantes [OF e]
  from dX c(1) show "(X has_real_derivative VX t) (at t within {a..b})"
    by simp
  from dY c(2) show "(Y has_real_derivative VY t) (at t within {a..b})"
    by simp
  from c(3) show "sqrt ((X t) ^ 2 + (Y t) ^ 2) \<noteq> 0" .
  from dVX c(4) show "(VX has_real_derivative (- Gc * Mc * X t / sqrt ((X t) ^ 2 + (Y t) ^ 2) ^ 3))
      (at t within {a..b})"
    by simp
  from dVY c(5) show "(VY has_real_derivative (- Gc * Mc * Y t / sqrt ((X t) ^ 2 + (Y t) ^ 2) ^ 3))
      (at t within {a..b})"
    by simp
qed

lemma moment_constant:
  assumes tr: "trajectoire (\<lambda>t y. equations_mouvement t y Gc Mc) a b X Y VX VY"
    and t: "t \<in> {a..b}"
  shows "X t * VY t - Y t * VX t = X a * VY a - Y a * VX a"
proof (rule constante_sur_intervalle [where f = "\<lambda>s. X s * VY s - Y s * VX s", OF _ t])
  fix s
  assume s: "s \<in> {a..b}"
  note d = trajectoire_derivees [OF tr s]
  let ?ax = "- Gc * Mc * X s / sqrt ((X s) ^ 2 + (Y s) ^ 2) ^ 3"
  let ?ay = "- Gc * Mc * Y s / sqrt ((X s) ^ 2 + (Y s) ^ 2) ^ 3"
  have "((\<lambda>s. X s * VY s - Y s * VX s) has_real_derivative
      (VX s * VY s + ?ay * X s - (VY s * VX s + ?ax * Y s))) (at s within {a..b})"
    by (rule DERIV_diff [OF DERIV_mult [OF d(1) d(4)] DERIV_mult [OF d(2) d(3)]])
  moreover have "VX s * VY s + ?ay * X s - (VY s * VX s + ?ax * Y s) = 0"
    using force_centrale [of "X s" "- Gc * Mc" "Y s" "sqrt ((X s) ^ 2 + (Y s) ^ 2) ^ 3"]
    by (simp add: mult.commute)
  ultimately show "((\<lambda>s. X s * VY s - Y s * VX s) has_real_derivative 0) (at s within {a..b})"
    by simp
qed

lemma radiale_Y_nul:
  assumes tr: "trajectoire (\<lambda>t y. equations_mouvement t y Gc Mc) a b X Y VX VY"
    and Ya: "Y a = 0" and VYa: "VY a = 0"
    and t: "t \<in> {a..b}"
  shows "Y t = 0"
proof -
  let ?q = "\<lambda>s. Y s * Y s / (X s * X s + Y s * Y s)"
  have nz: "X s * X s + Y s * Y s \<noteq> 0" if "s \<in> {a..b}" for s
    using trajectoire_derivees(5) [OF tr that] by (auto simp: power2_eq_square)
  have q0: "(?q has_real_derivative 0) (at s within {a..b})" if s: "s \<in> {a..b}" for s
  proof -
    note d = trajectoire_derivees [OF tr s]
    from moment_constant [OF tr s] Ya VYa have L: "X s * VY s = Y s * VX s"
      by simp
    have dn: "((\<lambda>s. Y s * Y s) has_real_derivative (VY s * Y s + VY s * Y s)) (at s within {a..b})"
      by (rule DERIV_mult [OF d(2) d(2)])
    have dd: "((\<lambda>s. X s * X s + Y s * Y s) has_real_derivative
        (VX s * X s + VX s * X s + (VY s * Y s + VY s * Y s))) (at s within {a..b})"
      by (rule DERIV_add [OF DERIV_mult [OF d(1) d(1)] DERIV_mult [OF d(2) d(2)]])
    have "(VY s * Y s + VY s * Y s) * (X s * X s + Y s * Y s)
        - Y s * Y s * (VX s * X s + VX s * X s + (VY s * Y s + VY s * Y s))
        = 2 * X s * Y s * (X s * VY s - Y s * VX s)"
      by (simp add: algebra_simps)
    with L have z: "(VY s * Y s + VY s * Y s) * (X s * X s + Y s * Y s)
        - Y s * Y s * (VX s * X s + VX s * X s + (VY s * Y s + VY s * Y s)) = 0"
      by simp
    have "(?q has_real_derivative
        ((VY s * Y s + VY s * Y s) * (X s * X s + Y s * Y s)
          - Y s * Y s * (VX s * X s + VX s * X s + (VY s * Y s + VY s * Y s)))
        / ((X s * X s + Y s * Y s) * (X s * X s + Y s * Y s))) (at s within {a..b})"
      by (rule DERIV_divide [OF dn dd nz [OF s]])
    then have "(?q has_real_derivative
        0 / ((X s * X s + Y s * Y s) * (X s * X s + Y s * Y s))) (at s within {a..b})"
      by (simp only: z)
    then show ?thesis
      by (simp only: div_0)
  qed
  from t have a: "a \<in> {a..b}"
    by simp
  from constante_sur_intervalle [where f = ?q, OF q0 t] Ya have "?q t = 0"
    by simp
  with nz [OF t] show ?thesis
    by auto
qed

lemma radiale_X_positif:
  assumes tr: "trajectoire (\<lambda>t y. equations_mouvement t y Gc Mc) a b X Y VX VY"
    and Ya: "Y a = 0" and VYa: "VY a = 0" and Xa: "0 < X a"
    and t: "t \<in> {a..b}"
  shows "0 < X t"
proof (rule ccontr)
  assume "\<not> 0 < X t"
  then have neg: "X t \<le> 0"
    by simp
  from t have sub: "{a..t} \<subseteq> {a..b}" and le: "a \<le> t"
    by auto
  have "continuous_on {a..b} X"
    by (rule continue_sur_intervalle) (use trajectoire_derivees(1) [OF tr] in blast)
  then have c: "continuous_on {a..t} X"
    using sub by (rule continuous_on_subset)
  from Xa have p: "0 \<le> X a"
    by simp
  from IVT2' [where f = X and a = a and b = t and y = 0, OF neg p le c]
  obtain s where s: "a \<le> s" "s \<le> t" and X0: "X s = 0"
    by blast
  from s t have sI: "s \<in> {a..b}"
    by simp
  from radiale_Y_nul [OF tr Ya VYa sI] X0 trajectoire_derivees(5) [OF tr sI] show False
    by simp
qed

lemma radiale_acceleration:
  assumes tr: "trajectoire (\<lambda>t y. equations_mouvement t y Gc Mc) a b X Y VX VY"
    and Ya: "Y a = 0" and VYa: "VY a = 0" and Xa: "0 < X a"
    and t: "t \<in> {a..b}"
  shows "(VX has_real_derivative (- (Gc * Mc) / (X t * X t))) (at t within {a..b})"
proof -
  from radiale_Y_nul [OF tr Ya VYa t] have Y: "Y t = 0" .
  from radiale_X_positif [OF tr Ya VYa Xa t] have X: "0 < X t" .
  from X have "- Gc * Mc * X t / sqrt ((X t) ^ 2 + 0 ^ 2) ^ 3 = - (Gc * Mc) / (X t * X t)"
    by (simp add: power3_eq_cube)
  with trajectoire_derivees(3) [OF tr t] Y show ?thesis
    by simp
qed

lemma radiale_energie:
  assumes tr: "trajectoire (\<lambda>t y. equations_mouvement t y Gc Mc) a b X Y VX VY"
    and Ya: "Y a = 0" and VYa: "VY a = 0" and Xa: "0 < X a"
    and t: "t \<in> {a..b}"
  shows "VX t * VX t / 2 - Gc * Mc / X t = VX a * VX a / 2 - Gc * Mc / X a"
proof (rule constante_sur_intervalle [where f = "\<lambda>s. VX s * VX s / 2 - Gc * Mc / X s", OF _ t])
  fix s
  assume s: "s \<in> {a..b}"
  from radiale_X_positif [OF tr Ya VYa Xa s] have X: "X s \<noteq> 0"
    by simp
  note dX = trajectoire_derivees(1) [OF tr s]
  note dV = radiale_acceleration [OF tr Ya VYa Xa s]
  let ?A = "- (Gc * Mc) / (X s * X s)"
  have c: "((\<lambda>s. VX s * VX s / 2) has_real_derivative ((?A * VX s + ?A * VX s) / 2))
      (at s within {a..b})"
    by (rule DERIV_cdivide [OF DERIV_mult [OF dV dV]])
  have p: "((\<lambda>s. Gc * Mc / X s) has_real_derivative
      ((0 * X s - Gc * Mc * VX s) / (X s * X s))) (at s within {a..b})"
    by (rule DERIV_divide [OF DERIV_const dX X])
  have "(?A * VX s + ?A * VX s) / 2 - (0 * X s - Gc * Mc * VX s) / (X s * X s) = 0"
    by (simp add: field_simps)
  with DERIV_diff [OF c p]
  show "((\<lambda>s. VX s * VX s / 2 - Gc * Mc / X s) has_real_derivative 0) (at s within {a..b})"
    by simp
qed

lemma constante_gravitation: "G * M_terre = 398589196000000"
  by (simp add: G_def M_terre_def)

lemma pas_de_trajectoire_exemple:
  assumes tr: "trajectoire (\<lambda>t y. equations_mouvement t y G M_terre) 0 86400 X Y VX VY"
    and init: "[X 0, Y 0, VX 0, VY 0] = [6771000, 0, 7800, 0]"
  shows False
proof -
  from init have X0: "X 0 = 6771000" and Y0: "Y 0 = 0" and VX0: "VX 0 = 7800" and VY0: "VY 0 = 0"
    by simp_all
  from X0 have Xp: "0 < X 0"
    by simp
  have borne: "X s \<le> 15000000" if s: "s \<in> {0..86400}" for s
  proof (rule ccontr)
    assume "\<not> X s \<le> 15000000"
    then have g: "15000000 < X s"
      by simp
    then have "398589196000000 / X s < 398589196000000 / 15000000"
      by (intro divide_strict_left_mono) simp_all
    moreover have "0 \<le> VX s * VX s / 2"
      by simp
    moreover from radiale_energie [OF tr Y0 VY0 Xp s]
    have "VX s * VX s / 2 - 398589196000000 / X s = 7800 * 7800 / 2 - 398589196000000 / 6771000"
      by (simp add: constante_gravitation X0 VX0)
    ultimately show False
      by simp
  qed
  have frein: "- (G * M_terre) / (X s * X s) \<le> - 1" if s: "s \<in> {0..86400}" for s
  proof -
    from radiale_X_positif [OF tr Y0 VY0 Xp s] have p: "0 < X s" .
    with borne [OF s] have "X s * X s \<le> 15000000 * 15000000"
      by (intro mult_mono) simp_all
    also have "\<dots> \<le> 398589196000000"
      by simp
    finally have "X s * X s \<le> G * M_terre"
      by (simp add: constante_gravitation)
    with p show ?thesis
      by (simp add: field_simps)
  qed
  have vitesse: "VX s \<le> 7800 - s" if s: "s \<in> {0..86400}" for s
  proof -
    have "VX s + s \<le> VX 0 + 0"
    proof (rule decroit_sur_intervalle [where f = "\<lambda>s. VX s + s", OF _ s])
      fix u :: real
      assume u: "u \<in> {0..86400}"
      have "((\<lambda>s. VX s + s) has_real_derivative (- (G * M_terre) / (X u * X u) + 1))
          (at u within {0..86400})"
        by (rule DERIV_add [OF radiale_acceleration [OF tr Y0 VY0 Xp u] DERIV_ident])
      moreover from frein [OF u] have "- (G * M_terre) / (X u * X u) + 1 \<le> 0"
        by simp
      ultimately
      show "\<exists>d. ((\<lambda>s. VX s + s) has_real_derivative d) (at u within {0..86400}) \<and> d \<le> 0"
        by blast
    qed
    with VX0 show ?thesis
      by simp
  qed
  have fin: "(86400::real) \<in> {0..86400}"
    by simp
  have "X 86400 - 7800 * 86400 + 86400 * 86400 / 2 \<le> X 0 - 7800 * 0 + 0 * 0 / 2"
  proof (rule decroit_sur_intervalle [where f = "\<lambda>s. X s - 7800 * s + s * s / 2", OF _ fin])
    fix u :: real
    assume u: "u \<in> {0..86400}"
    have l: "((\<lambda>s. 7800 * s) has_real_derivative 7800 * 1) (at u within {0..86400})"
      by (rule DERIV_cmult [OF DERIV_ident])
    have c: "((\<lambda>s. s * s / 2) has_real_derivative (1 * u + 1 * u) / 2) (at u within {0..86400})"
      by (rule DERIV_cdivide [OF DERIV_mult [OF DERIV_ident DERIV_ident]])
    have "((\<lambda>s. X s - 7800 * s + s * s / 2) has_real_derivative
        (VX u - 7800 * 1 + (1 * u + 1 * u) / 2)) (at u within {0..86400})"
      by (rule DERIV_add [OF DERIV_diff [OF trajectoire_derivees(1) [OF tr u] l] c])
    moreover from vitesse [OF u] have "VX u - 7800 * 1 + (1 * u + 1 * u) / 2 \<le> 0"
      by simp
    ultimately
    show "\<exists>d. ((\<lambda>s. X s - 7800 * s + s * s / 2) has_real_derivative d) (at u within {0..86400})
        \<and> d \<le> 0"
      by blast
  qed
  with X0 have "X 86400 < 0"
    by simp
  with radiale_X_positif [OF tr Y0 VY0 Xp fin] show False
    by simp
qed






lemma tranche_fin: "tranche xs (length xs) j = []"
  by (simp add: tranche_def)

lemma duree_nulle_scipy:
  "solve_ivp_scipy integration (arguments_solve_ivp masse altitude vitesse angle_deg 0) =
     Inr \<lparr>sol_t = [], sol_y = [], sol_success = True\<rparr>"
proof -
  let ?req = "arguments_solve_ivp masse altitude vitesse angle_deg 0"
  have span: "req_t_span ?req = (0, 0)"
    by (simp add: arguments_solve_ivp_def Let_def)
  have te: "req_t_eval ?req = replicate 10000 0"
    by (simp add: arguments_solve_ivp_def Let_def linspace_degenere)
  have "req_y0 ?req = [R_terre + altitude, 0,
      vitesse * cos (radians angle_deg), vitesse * sin (radians angle_deg)]"
    by (simp add: arguments_solve_ivp_def Let_def)
  then have f0: "\<exists>f0. second_membre ?req 0 (req_y0 ?req) = Inr f0"
    unfolding second_membre_arguments by (simp add: Let_def)
  then obtain f0 where f0: "second_membre ?req 0 (req_y0 ?req) = Inr f0"
    by blast
  have "tranche (rev (replicate 10000 (0::real))) (length (rev (replicate 10000 (0::real)))) j = []"
    for j
    by (rule tranche_fin)
  then have "solve_ivp_span_nul ?req = Inr \<lparr>sol_t = [], sol_y = [], sol_success = True\<rparr>"
    unfolding solve_ivp_span_nul_def span te by (simp add: f0 Let_def)
  then show ?thesis
    by (simp add: solve_ivp_scipy_def span)
qed

subsection \<open>The motion model\<close>

text \<open>
  Claim C1. For every time \<open>t\<close> and every state \<open>(x, y, vx, vy)\<close> whose distance to the
  origin \<open>r = sqrt (x\<^sup>2 + y\<^sup>2)\<close> is not zero, the motion model returns exactly the four
  components \<open>vx\<close>, \<open>vy\<close>, \<open>- G M x / r\<^sup>3\<close> and \<open>- G M y / r\<^sup>3\<close>. The result is a value
  of a pure function: it does not depend on \<open>t\<close> and there is no state to change.
\<close>

theorem equations_mouvement_derivee:
  assumes "sqrt (x ^ 2 + y ^ 2) \<noteq> 0"
  shows "equations_mouvement t [x, y, vx, vy] Gc Mc =
           Inr [Fini vx, Fini vy,
                Fini (- (Gc * Mc * x) / (sqrt (x ^ 2 + y ^ 2)) ^ 3),
                Fini (- (Gc * Mc * y) / (sqrt (x ^ 2 + y ^ 2)) ^ 3)]"
  using assms by (simp add: division_def Let_def)

theorem equations_mouvement_derivee_witness:
  "sqrt ((3::real) ^ 2 + 4 ^ 2) \<noteq> 0 \<and>
   equations_mouvement 0 [3, 4, 1, 2] 125 2 = Inr [Fini 1, Fini 2, Fini (- 6), Fini (- 8)]"
proof -
  have r: "sqrt ((3::real) ^ 2 + 4 ^ 2) = 5"
    by (rule real_sqrt_unique) simp_all
  then have nz: "sqrt ((3::real) ^ 2 + 4 ^ 2) \<noteq> 0"
    by simp
  from equations_mouvement_derivee [OF nz, of 0 1 2 125 2] r show ?thesis
    by simp
qed


subsection \<open>The request of the trajectory integrator\<close>

text \<open>
  Claim C2. For every call of \<open>simulation_orbite\<close> with an altitude, a speed and an angle
  in degrees, the initial condition handed to the solver is exactly \<open>x0 = R + altitude\<close>,
  \<open>y0 = 0\<close>, \<open>vx0 = speed * cos a\<close> and \<open>vy0 = speed * sin a\<close>, where \<open>a\<close> is the angle
  converted from degrees to radians.
\<close>

theorem conditions_initiales:
  "simulation_orbite solve_ivp masse altitude vitesse angle_deg duree =
     solve_ivp (arguments_solve_ivp masse altitude vitesse angle_deg duree)
   \<and> req_y0 (arguments_solve_ivp masse altitude vitesse angle_deg duree) =
       [R_terre + altitude, 0,
        vitesse * cos (angle_deg * pi / 180), vitesse * sin (angle_deg * pi / 180)]"
  by (simp add: simulation_orbite_def arguments_solve_ivp_def radians_def Let_def)

text \<open>
  Claim C3. For every duration the integrator asks for output at exactly 10000 evenly
  spaced times over the interval from 0 to the duration: the first time is 0, the last is
  the duration, and two consecutive times differ by the duration divided by 9999.
\<close>

theorem temps_evaluation:
  "simulation_orbite solve_ivp masse altitude vitesse angle_deg duree =
     solve_ivp (arguments_solve_ivp masse altitude vitesse angle_deg duree)
   \<and> req_t_span (arguments_solve_ivp masse altitude vitesse angle_deg duree) = (0, duree)
   \<and> length (req_t_eval (arguments_solve_ivp masse altitude vitesse angle_deg duree)) = 10000
   \<and> req_t_eval (arguments_solve_ivp masse altitude vitesse angle_deg duree) ! 0 = 0
   \<and> req_t_eval (arguments_solve_ivp masse altitude vitesse angle_deg duree) ! 9999 = duree
   \<and> (\<forall>i<9999.
         req_t_eval (arguments_solve_ivp masse altitude vitesse angle_deg duree) ! Suc i
         - req_t_eval (arguments_solve_ivp masse altitude vitesse angle_deg duree) ! i
         = duree / 9999)"
proof -
  have t: "req_t_eval (arguments_solve_ivp masse altitude vitesse angle_deg duree)
             = linspace 0 duree 10000"
    by (simp add: arguments_solve_ivp_def Let_def)
  have s: "req_t_span (arguments_solve_ivp masse altitude vitesse angle_deg duree) = (0, duree)"
    by (simp add: arguments_solve_ivp_def Let_def)
  have premier: "linspace 0 duree 10000 ! 0 = 0"
    by (simp add: linspace_nth)
  have dernier: "linspace 0 duree 10000 ! 9999 = duree"
    by (simp add: linspace_nth)
  have pas: "linspace 0 duree 10000 ! Suc i - linspace 0 duree 10000 ! i = duree / 9999"
    if "i < 9999" for i
    using that linspace_pas [of 10000 i 0 duree] by simp
  show ?thesis
    unfolding t s using premier dernier pas
    by (simp add: simulation_orbite_def length_linspace)
qed

theorem temps_evaluation_witness:
  "(5::nat) < 9999 \<and>
   req_t_eval (arguments_solve_ivp 1000 400000 7800 0 86400) ! Suc 5
   - req_t_eval (arguments_solve_ivp 1000 400000 7800 0 86400) ! 5 = 86400 / 9999"
proof -
  have lt: "(5::nat) < 9999"
    by simp
  from temps_evaluation [of "\<lambda>r. Inl ValueError" 1000 400000 7800 0 86400]
  have "\<forall>i<9999.
      req_t_eval (arguments_solve_ivp 1000 400000 7800 0 86400) ! Suc i
      - req_t_eval (arguments_solve_ivp 1000 400000 7800 0 86400) ! i = 86400 / 9999"
    by blast
  with lt show ?thesis
    by blast
qed

text \<open>
  Claim C4. Every call of the integrator hands the solver the motion model as the
  function to integrate, a relative tolerance of exactly 1e-8, an absolute tolerance of
  exactly 1e-10, and the constants \<open>G\<close> and \<open>M\<close> as explicit extra arguments, so that
  the right-hand side the solver evaluates is the motion model applied to them.
\<close>

theorem configuration_solveur:
  "simulation_orbite solve_ivp masse altitude vitesse angle_deg duree =
     solve_ivp (arguments_solve_ivp masse altitude vitesse angle_deg duree)
   \<and> req_fun (arguments_solve_ivp masse altitude vitesse angle_deg duree) = equations_mouvement
   \<and> req_rtol (arguments_solve_ivp masse altitude vitesse angle_deg duree) = 1 / 100000000
   \<and> req_atol (arguments_solve_ivp masse altitude vitesse angle_deg duree) = 1 / 10000000000
   \<and> req_args (arguments_solve_ivp masse altitude vitesse angle_deg duree) = (G, M_terre)
   \<and> second_membre (arguments_solve_ivp masse altitude vitesse angle_deg duree) t y =
       equations_mouvement t y (667430 / 10 ^ 16) (5972 * 10 ^ 21)"
  by (simp add: simulation_orbite_def arguments_solve_ivp_def second_membre_def Let_def
        G_def M_terre_def)

subsection \<open>Central force\<close>



subsection \<open>The satellite mass\<close>

text \<open>
  Claim C6. The result of the integrator does not depend on the satellite mass: with the
  same altitude, speed, angle and duration, two calls with masses \<open>m1\<close> and \<open>m2\<close> return
  the same result.
\<close>

theorem masse_sans_effet:
  "simulation_orbite solve_ivp m1 altitude vitesse angle_deg duree =
   simulation_orbite solve_ivp m2 altitude vitesse angle_deg duree"
  by (simp add: simulation_orbite_def arguments_solve_ivp_def)

subsection \<open>The example scenario\<close>

text \<open>
  Claim C7, on the code. The claim expects the example scenario of \<open>main\<close> (mass 1000,
  altitude 400000, speed 7800, angle 0, duration 86400) to report success. The docstring
  of \<open>simulation_orbite\<close> measures the angle from the horizontal, but the code puts the
  whole speed of angle 0 on \<open>vx\<close>, along the radius: the satellite rises and falls back
  into the centre, and no trajectory of the motion model exists over the 86400 seconds.
  So with every solver whose success means a trajectory over the span, the run of the
  example does not report success, and \<open>main\<close> prints the failure message.
\<close>

theorem exemple_sans_succes:
  assumes "solveur_fidele solve_ivp"
    and "simulation_orbite solve_ivp 1000 400000 7800 0 86400 = Inr sol"
  shows "\<not> sol_success sol
       \<and> main solve_ivp = [Affiche msg_banniere, Affiche msg_en_cours, Affiche msg_echec]"
proof -
  let ?req = "arguments_solve_ivp 1000 400000 7800 0 86400"
  from assms(2) have r: "solve_ivp ?req = Inr sol"
    by (simp add: simulation_orbite_def)
  have span: "req_t_span ?req = (0, 86400)"
    by (simp add: arguments_solve_ivp_def Let_def)
  have ns: "\<not> sol_success sol"
  proof
    assume "sol_success sol"
    with assms(1) r obtain X Y VX VY where
      tr: "trajectoire (second_membre ?req)
          (min (fst (req_t_span ?req)) (snd (req_t_span ?req)))
          (max (fst (req_t_span ?req)) (snd (req_t_span ?req))) X Y VX VY"
      and i: "req_y0 ?req = [X (fst (req_t_span ?req)), Y (fst (req_t_span ?req)),
          VX (fst (req_t_span ?req)), VY (fst (req_t_span ?req))]"
      unfolding solveur_fidele_def by blast
    from tr have "trajectoire (\<lambda>t y. equations_mouvement t y G M_terre) 0 86400 X Y VX VY"
      unfolding span second_membre_arguments by simp
    moreover from i have "[X 0, Y 0, VX 0, VY 0] = [6771000, 0, 7800, 0]"
      unfolding span exemple_conditions_initiales by simp
    ultimately show False
      by (rule pas_de_trajectoire_exemple)
  qed
  with assms(2) show ?thesis
    by (simp add: main_def saisie_def duree_defaut_def)
qed

theorem exemple_sans_succes_witness:
  "solveur_fidele (\<lambda>req. Inr \<lparr>sol_t = [], sol_y = [], sol_success = False\<rparr>)
   \<and> simulation_orbite (\<lambda>req. Inr \<lparr>sol_t = [], sol_y = [], sol_success = False\<rparr>)
        1000 400000 7800 0 86400 = Inr \<lparr>sol_t = [], sol_y = [], sol_success = False\<rparr>
   \<and> main (\<lambda>req. Inr \<lparr>sol_t = [], sol_y = [], sol_success = False\<rparr>) =
       [Affiche msg_banniere, Affiche msg_en_cours, Affiche msg_echec]"
proof -
  have f: "solveur_fidele (\<lambda>req. Inr \<lparr>sol_t = [], sol_y = [], sol_success = False\<rparr>)"
    by (auto simp: solveur_fidele_def)
  have r: "simulation_orbite (\<lambda>req. Inr \<lparr>sol_t = [], sol_y = [], sol_success = False\<rparr>)
      1000 400000 7800 0 86400 = Inr \<lparr>sol_t = [], sol_y = [], sol_success = False\<rparr>"
    by (simp add: simulation_orbite_def)
  from exemple_sans_succes [OF f r] f r show ?thesis
    by blast
qed

subsection \<open>A duration of zero\<close>

text \<open>
  Claim C8, as stated: with a duration of 0 the returned trajectory has a single sample,
  the initial condition. With the solver as scipy runs it on a span of length zero, the
  run of the example with duration 0 returns no sample at all.
\<close>

theorem duree_nulle_counterexample:
  "simulation_orbite (solve_ivp_scipy (\<lambda>req. Inl ValueError)) 1000 400000 7800 0 0 =
     Inr \<lparr>sol_t = [], sol_y = [], sol_success = True\<rparr>"
  unfolding simulation_orbite_def by (rule duree_nulle_scipy)

text \<open>
  Claim C8, amended. With a duration of 0 the integrator asks for 10000 evaluation times,
  all equal to 0, over the span from 0 to 0; the solver finishes at once, keeps none of
  them, and the run returns success with an empty trajectory: no time and no state,
  whatever the mass, altitude, speed and angle.
\<close>

theorem duree_nulle_trajectoire_vide:
  "req_t_span (arguments_solve_ivp masse altitude vitesse angle_deg 0) = (0, 0)
   \<and> req_t_eval (arguments_solve_ivp masse altitude vitesse angle_deg 0) = replicate 10000 0
   \<and> simulation_orbite (solve_ivp_scipy integration) masse altitude vitesse angle_deg 0 =
       Inr \<lparr>sol_t = [], sol_y = [], sol_success = True\<rparr>"
proof (intro conjI)
  show "req_t_span (arguments_solve_ivp masse altitude vitesse angle_deg 0) = (0, 0)"
    by (simp add: arguments_solve_ivp_def Let_def)
  show "req_t_eval (arguments_solve_ivp masse altitude vitesse angle_deg 0) = replicate 10000 0"
    by (simp add: arguments_solve_ivp_def Let_def linspace_degenere)
  show "simulation_orbite (solve_ivp_scipy integration) masse altitude vitesse angle_deg 0 =
      Inr \<lparr>sol_t = [], sol_y = [], sol_success = True\<rparr>"
    unfolding simulation_orbite_def by (rule duree_nulle_scipy)
qed

subsection \<open>The entry point\<close>

text \<open>
  Claim C9. \<open>main\<close> looks at the success flag of the integrator's result. When the flag
  is false it prints the one failure message and returns without calling the
  visualiser; when it is true it calls the visualiser on the result. The failure message
  is printed if and only if the flag is false.
\<close>

theorem main_drapeau_succes:
  assumes "simulation_orbite solve_ivp 1000 400000 7800 0 86400 = Inr sol"
  shows "(\<not> sol_success sol \<longrightarrow>
            main solve_ivp = [Affiche msg_banniere, Affiche msg_en_cours, Affiche msg_echec])
       \<and> (sol_success sol \<longrightarrow>
            main solve_ivp =
              [Affiche msg_banniere, Affiche msg_en_cours, Affiche msg_terminee]
              @ visualiser_orbite sol)
       \<and> (Affiche msg_echec \<in> set (main solve_ivp) \<longleftrightarrow> \<not> sol_success sol)
       \<and> (set (visualiser_orbite sol) \<inter> set (main solve_ivp) = {} \<longleftrightarrow> \<not> sol_success sol)"
proof -
  have echec: "main solve_ivp = [Affiche msg_banniere, Affiche msg_en_cours, Affiche msg_echec]"
    if "\<not> sol_success sol"
    using that assms by (simp add: main_def saisie_def duree_defaut_def)
  have reussite: "main solve_ivp =
      [Affiche msg_banniere, Affiche msg_en_cours, Affiche msg_terminee] @ visualiser_orbite sol"
    if "sol_success sol"
    using that assms by (simp add: main_def saisie_def duree_defaut_def)
  have distincts: "msg_echec \<noteq> msg_banniere" "msg_echec \<noteq> msg_en_cours"
      "msg_echec \<noteq> msg_terminee"
    by (simp_all add: msg_echec_def msg_banniere_def msg_en_cours_def msg_terminee_def)
  have vide: "visualiser_orbite sol \<noteq> []"
    by (simp add: visualiser_orbite_def split: list.splits)
  have hors: "set (visualiser_orbite sol) \<inter>
      set [Affiche msg_banniere, Affiche msg_en_cours, Affiche msg_echec] = {}"
    by (auto simp: visualiser_orbite_def split: list.splits)
  show ?thesis
  proof (cases "sol_success sol")
    case True
    with reussite distincts vide show ?thesis
      by (auto simp: affiche_hors_figure)
  next
    case False
    with echec hors show ?thesis
      by simp
  qed
qed

theorem main_drapeau_succes_witness:
  "main (\<lambda>req. Inr \<lparr>sol_t = [], sol_y = [], sol_success = False\<rparr>) =
     [Affiche msg_banniere, Affiche msg_en_cours, Affiche msg_echec]
   \<and> main (\<lambda>req. Inr \<lparr>sol_t = [0], sol_y = map (\<lambda>v. [v]) (req_y0 req), sol_success = True\<rparr>) =
     [Affiche msg_banniere, Affiche msg_en_cours, Affiche msg_terminee,
      Figure [6771000] [0] R_terre]"
  using
    main_drapeau_succes [of "\<lambda>req. Inr \<lparr>sol_t = [], sol_y = [], sol_success = False\<rparr>"
      "\<lparr>sol_t = [], sol_y = [], sol_success = False\<rparr>"]
    main_drapeau_succes [of
      "\<lambda>req. Inr \<lparr>sol_t = [0], sol_y = map (\<lambda>v. [v]) (req_y0 req), sol_success = True\<rparr>"
      "\<lparr>sol_t = [0], sol_y = [[6771000], [0], [7800], [0]], sol_success = True\<rparr>"]
  by (simp add: simulation_orbite_def arguments_solve_ivp_def Let_def radians_def R_terre_def
        visualiser_orbite_def)

text \<open>
  Claim C10. The invalid-input branch of \<open>main\<close> cannot be reached: the guarded block
  only assigns literals and raises nothing. In every execution the invalid-input message
  is not printed, and the integrator is called with mass 1000, altitude 400000, speed
  7800 and angle 0 (and the default duration), after the two opening lines.
\<close>

theorem main_entree_invalide_inatteignable:
  "saisie = Inr (1000, 400000, 7800, 0)
   \<and> Affiche msg_entree_invalide \<notin> set (main solve_ivp)
   \<and> main solve_ivp =
       Affiche msg_banniere # Affiche msg_en_cours #
       (case simulation_orbite solve_ivp 1000 400000 7800 0 86400 of
          Inl e \<Rightarrow> [Leve e]
        | Inr sol \<Rightarrow>
            if sol_success sol then Affiche msg_terminee # visualiser_orbite sol
            else [Affiche msg_echec])"
proof -
  have distincts: "msg_entree_invalide \<noteq> msg_banniere" "msg_entree_invalide \<noteq> msg_en_cours"
      "msg_entree_invalide \<noteq> msg_echec" "msg_entree_invalide \<noteq> msg_terminee"
    by (simp_all add: msg_entree_invalide_def msg_banniere_def msg_en_cours_def msg_echec_def
          msg_terminee_def)
  have forme: "main solve_ivp =
       Affiche msg_banniere # Affiche msg_en_cours #
       (case simulation_orbite solve_ivp 1000 400000 7800 0 86400 of
          Inl e \<Rightarrow> [Leve e]
        | Inr sol \<Rightarrow>
            if sol_success sol then Affiche msg_terminee # visualiser_orbite sol
            else [Affiche msg_echec])"
    by (simp add: main_def saisie_def duree_defaut_def split: sum.splits)
  have "Affiche msg_entree_invalide \<notin> set (main solve_ivp)"
    unfolding forme using distincts
    by (simp add: affiche_hors_figure split: sum.splits)
  with forme show ?thesis
    by (simp add: saisie_def)
qed

end
